theory Spec2Isabelle
  imports Main
begin

section \<open>Values shared by the scripts\<close>

text \<open>
  The four scripts (\<^verbatim>\<open>app.py\<close>, \<^verbatim>\<open>query_pdf.py\<close>, \<^verbatim>\<open>index_pdf.py\<close>, \<^verbatim>\<open>demo.py\<close>) wire
  library components into pipelines. A component is a call into another process
  (embedding server, vector database, language model) or into a library. Such a call either
  raises or returns, so every component is a function into \<open>error + 'a\<close>, and the scripts'
  own control flow is written around these functions. None of the scripts catches an
  exception: an error of a component ends the script run where it is raised.
\<close>

datatype error =
    EOFError
  | IndexError
  | ComponentError string

definition nl :: string where
  "nl = [CHR 0x0A]"

definition apostrophe :: string where
  "apostrophe = [CHR 0x27]"

subsection \<open>Prompt templates\<close>

text \<open>
  The three templates have one shape: fixed text, a loop over \<^verbatim>\<open>documents\<close> that prints
  \<^verbatim>\<open>document.content\<close> between fixed text, fixed text, the \<^verbatim>\<open>question\<close>, fixed text.
  The template engine runs with its default settings: it keeps the line breaks around the
  block tags and drops one line break at the very end of the template.
\<close>

record template =
  before_documents :: string
  before_content :: string
  after_content :: string
  before_question :: string
  after_question :: string

definition render :: "template \<Rightarrow> string list \<Rightarrow> string \<Rightarrow> string" where
  "render t documents question =
     before_documents t
     @ concat (map (\<lambda>content. before_content t @ content @ after_content t) documents)
     @ before_question t @ question @ after_question t"

text \<open>\<^verbatim>\<open>query_pdf.py\<close>, lines 24 to 35.\<close>

definition query_pdf_template :: template where
  "query_pdf_template = \<lparr>
     before_documents =
       nl @ ''You are an academic research assistant. Please answer the user'' @ apostrophe
          @ ''s question based ONLY on the following [Context].''
       @ nl @ ''Be professional and accurate. If possible, cite specific details from the context.''
       @ nl @ nl @ ''[Context]:'' @ nl,
     before_content = nl @ ''    '',
     after_content = nl,
     before_question = nl @ nl @ ''User Question: '',
     after_question = nl @ ''Answer:'' \<rparr>"

text \<open>\<^verbatim>\<open>app.py\<close>, lines 62 to 73: the same text, indented inside the function body.\<close>

definition app_template :: template where
  "app_template = \<lparr>
     before_documents =
       nl @ ''    You are an academic research assistant. Please answer the user'' @ apostrophe
          @ ''s question based ONLY on the following [Context].''
       @ nl @ ''    Be professional and accurate. If possible, cite specific details.''
       @ nl @ nl @ ''    [Context]:'' @ nl @ ''    '',
     before_content = nl @ ''        '',
     after_content = nl @ ''    '',
     before_question = nl @ nl @ ''    User Question: '',
     after_question = nl @ ''    Answer:'' @ nl @ ''    '' \<rparr>"

subsection \<open>The question-answering pipeline of \<^verbatim>\<open>query_pdf.py\<close> and \<^verbatim>\<open>app.py\<close>\<close>

text \<open>
  Three components are calls to services: the text embedder, the retriever (with its
  \<^verbatim>\<open>top_k\<close>) and the generator. A service may answer the same request differently from
  one call to the next, so each takes the number of the pipeline run as well.
  \<^verbatim>\<open>pipeline.run\<close> passes the question to the embedder and to the prompt builder, the
  embedding to the retriever, the retrieved documents to the prompt builder and the prompt
  to the generator; its result holds the generator's \<^verbatim>\<open>replies\<close>.
\<close>

record 'v rag_services =
  text_embedder :: "nat \<Rightarrow> string \<Rightarrow> error + 'v"
  retriever :: "nat \<Rightarrow> nat \<Rightarrow> 'v \<Rightarrow> error + string list"
  llm :: "nat \<Rightarrow> string \<Rightarrow> error + string list"

definition rag_pipeline_run ::
  "template \<Rightarrow> 'v rag_services \<Rightarrow> nat \<Rightarrow> string \<Rightarrow> error + string list" where
  "rag_pipeline_run t svc n question =
     (case text_embedder svc n question of
        Inl e \<Rightarrow> Inl e
      | Inr embedding \<Rightarrow>
          (case retriever svc n 3 embedding of
             Inl e \<Rightarrow> Inl e
           | Inr documents \<Rightarrow> llm svc n (render t documents question)))"

text \<open>\<^verbatim>\<open>result['llm']['replies'][0]\<close>: the first reply, or \<^verbatim>\<open>IndexError\<close> on an empty list.\<close>

definition first_reply :: "error + string list \<Rightarrow> error + string" where
  "first_reply result =
     (case result of
        Inl e \<Rightarrow> Inl e
      | Inr replies \<Rightarrow> (case replies of [] \<Rightarrow> Inl IndexError | reply # _ \<Rightarrow> Inr reply))"

section \<open>The chat window of \<^verbatim>\<open>app.py\<close>\<close>

text \<open>
  \<^verbatim>\<open>st.session_state.messages\<close> is a list of dictionaries with the keys \<^verbatim>\<open>role\<close> and
  \<^verbatim>\<open>content\<close>. Lines 125 to 142 handle one submission of the chat input: nothing happens
  when there is no input (or an empty one); otherwise the user's message is appended, the
  pipeline runs, and the assistant's message is appended after the first reply has been
  taken from the result. The list is changed in place, so what was appended before an
  exception stays appended.
\<close>

record message =
  role :: string
  content :: string

definition app_chat_turn ::
  "'v rag_services \<Rightarrow> nat \<Rightarrow> string option \<Rightarrow> message list \<Rightarrow> error option \<times> message list" where
  "app_chat_turn svc n chat_input messages =
     (case chat_input of
        None \<Rightarrow> (None, messages)
      | Some prompt \<Rightarrow>
          if prompt = [] then (None, messages)
          else
            let messages1 = messages @ [\<lparr>role = ''user'', content = prompt\<rparr>] in
            (case first_reply (rag_pipeline_run app_template svc n prompt) of
               Inl e \<Rightarrow> (Some e, messages1)
             | Inr response \<Rightarrow>
                 (None, messages1 @ [\<lparr>role = ''assistant'', content = response\<rparr>])))"

section \<open>The interactive loop of \<^verbatim>\<open>query_pdf.py\<close>\<close>

text \<open>
  \<^verbatim>\<open>user_input.lower() == 'q'\<close> decides whether the loop is left. Strings are byte
  strings here, and \<open>lower\<close> maps the letters \<^verbatim>\<open>A\<close> to \<^verbatim>\<open>Z\<close> to \<^verbatim>\<open>a\<close> to \<^verbatim>\<open>z\<close> and
  keeps every other byte.
\<close>

definition lower_chr :: "char \<Rightarrow> char" where
  "lower_chr c =
     (let k = (of_char c :: nat) in if 65 \<le> k \<and> k \<le> 90 then char_of (k + 32) else c)"

definition lower :: "string \<Rightarrow> string" where
  "lower s = map lower_chr s"

text \<open>
  What the terminal sees of a run: \<open>Ask\<close> is \<^verbatim>\<open>input\<close> writing its prompt, \<open>Read l\<close> is
  \<^verbatim>\<open>input\<close> returning the line \<open>l\<close>, \<open>Print s\<close> is a call of \<^verbatim>\<open>print\<close>. The script ends
  either by leaving the loop (exit code 0) or with an exception that nothing catches
  (exit code 1); \<^verbatim>\<open>input\<close> raises \<^verbatim>\<open>EOFError\<close> when no line is left.
\<close>

datatype event = Ask | Read string | Print string

datatype outcome = Finished | Uncaught error

fun exit_code :: "outcome \<Rightarrow> nat" where
  "exit_code Finished = 0"
| "exit_code (Uncaught e) = 1"

definition thinking :: string where
  "thinking = ''AI is reading and thinking...''"

definition rule_line :: string where
  "rule_line = replicate 50 CHR ''-''"

text \<open>
  Lines 52 to 65, on the lines that the standard input holds; \<open>n\<close> numbers the pipeline
  runs. The first rule is printed before \<^verbatim>\<open>replies[0]\<close> is evaluated, so an empty list of
  replies raises after it.
\<close>

fun query_loop :: "'v rag_services \<Rightarrow> nat \<Rightarrow> string list \<Rightarrow> outcome \<times> event list" where
  "query_loop svc n [] = (Uncaught EOFError, [Ask])"
| "query_loop svc n (user_input # rest) =
     (if lower user_input = ''q'' then (Finished, [Ask, Read user_input])
      else
        (case rag_pipeline_run query_pdf_template svc n user_input of
           Inl e \<Rightarrow> (Uncaught e, [Ask, Read user_input, Print thinking])
         | Inr replies \<Rightarrow>
             (case replies of
                [] \<Rightarrow>
                  (Uncaught IndexError, [Ask, Read user_input, Print thinking, Print rule_line])
              | reply # _ \<Rightarrow>
                  (let (out, evs) = query_loop svc (Suc n) rest
                   in (out, [Ask, Read user_input, Print thinking,
                             Print rule_line, Print reply, Print rule_line] @ evs)))))"

text \<open>
  What the terminal should show for lines that are answered one after the other, as the
  description of the loop has it: for each line the prompt, the line, the notice, and the
  reply between two rules. \<open>reply k\<close> is the reply printed in the pipeline run number
  \<open>k\<close>.
\<close>

definition answer_block :: "string \<Rightarrow> string \<Rightarrow> event list" where
  "answer_block l reply =
     [Ask, Read l, Print thinking, Print rule_line, Print reply, Print rule_line]"

fun answered_events :: "(nat \<Rightarrow> string) \<Rightarrow> nat \<Rightarrow> string list \<Rightarrow> event list" where
  "answered_events reply n [] = []"
| "answered_events reply n (l # ls) = answer_block l (reply n) @ answered_events reply (Suc n) ls"

text \<open>
  \<open>answered svc reply n ls\<close>: none of the lines \<open>ls\<close> passes the quit test, and the
  pipeline run on each of them (runs \<open>n\<close>, \<open>n + 1\<close>, ...) returns replies, of which
  \<open>reply\<close> names the first. \<open>before_quit ls\<close> are the lines entered before the first one
  that passes the quit test.
\<close>

fun answered :: "'v rag_services \<Rightarrow> (nat \<Rightarrow> string) \<Rightarrow> nat \<Rightarrow> string list \<Rightarrow> bool" where
  "answered svc reply n [] = True"
| "answered svc reply n (l # ls) =
     (lower l \<noteq> ''q''
      \<and> (case rag_pipeline_run query_pdf_template svc n l of
           Inl e \<Rightarrow> False
         | Inr replies \<Rightarrow> (case replies of [] \<Rightarrow> False | r # _ \<Rightarrow> r = reply n))
      \<and> answered svc reply (Suc n) ls)"

definition before_quit :: "string list \<Rightarrow> string list" where
  "before_quit ls = takeWhile (\<lambda>l. lower l \<noteq> ''q'') ls"

section \<open>Document stores and ingestion\<close>

text \<open>
  A store is opened on a collection of the database, named by the server's address and
  the index. The database is a function from these names to the records they hold. The
  scripts decide the settings of the store and nothing else: the constructor and the
  writer are library code, so what \<^verbatim>\<open>recreate_index\<close> does to the records, and when, is
  inside these two, and both are parameters that take the settings. Arguments that a call
  leaves out are \<open>None\<close>.
\<close>

record store_config =
  url :: string
  index :: string
  embedding_dim :: nat
  recreate_index :: bool
  similarity :: "string option"

type_synonym 'r database = "string \<times> string \<Rightarrow> 'r list"

definition collection :: "store_config \<Rightarrow> string \<times> string" where
  "collection cfg = (url cfg, index cfg)"

text \<open>\<^verbatim>\<open>index_pdf.py\<close>, lines 20 to 26, and \<^verbatim>\<open>app.py\<close>, lines 35 to 41.\<close>

definition index_pdf_document_store :: store_config where
  "index_pdf_document_store = \<lparr>
     url = ''http://localhost:6333'',
     index = ''my_paper_db'',
     embedding_dim = 768,
     recreate_index = True,
     similarity = Some ''cosine'' \<rparr>"

definition app_document_store :: store_config where
  "app_document_store = \<lparr>
     url = ''http://localhost:6333'',
     index = ''my_paper_db'',
     embedding_dim = 768,
     recreate_index = False,
     similarity = None \<rparr>"

text \<open>
  The indexing pipeline is converter, cleaner, splitter, embedder, writer, each feeding the
  next. All five are library components and are parameters here; the cleaner and the
  splitter get the settings that the scripts pass. The constructor of the store and the
  writer take the settings of the store and the database, and give the database as they
  leave it; the writer also gives the error if it raised on the way.
\<close>

record cleaner_config =
  remove_empty_lines :: bool
  remove_extra_whitespaces :: bool
  remove_repeated_substrings :: "bool option"

record splitter_config =
  split_by :: string
  split_length :: nat
  split_overlap :: nat
  respect_sentence_boundary :: "bool option"

record ('d, 'r) indexing_components =
  converter :: "string list \<Rightarrow> error + 'd list"
  cleaner :: "cleaner_config \<Rightarrow> 'd list \<Rightarrow> error + 'd list"
  splitter :: "splitter_config \<Rightarrow> 'd list \<Rightarrow> error + 'd list"
  embedder :: "'d list \<Rightarrow> error + 'r list"
  document_store :: "store_config \<Rightarrow> 'r database \<Rightarrow> 'r database"
  writer :: "store_config \<Rightarrow> 'r list \<Rightarrow> 'r database \<Rightarrow> error option \<times> 'r database"

definition index_pdf_cleaner :: cleaner_config where
  "index_pdf_cleaner = \<lparr>
     remove_empty_lines = True,
     remove_extra_whitespaces = True,
     remove_repeated_substrings = Some False \<rparr>"

definition index_pdf_splitter :: splitter_config where
  "index_pdf_splitter = \<lparr>
     split_by = ''word'',
     split_length = 250,
     split_overlap = 50,
     respect_sentence_boundary = Some True \<rparr>"

definition app_cleaner :: cleaner_config where
  "app_cleaner = \<lparr>
     remove_empty_lines = True,
     remove_extra_whitespaces = True,
     remove_repeated_substrings = None \<rparr>"

definition app_splitter :: splitter_config where
  "app_splitter = \<lparr>
     split_by = ''word'',
     split_length = 250,
     split_overlap = 50,
     respect_sentence_boundary = None \<rparr>"

definition embedded_chunks ::
  "cleaner_config \<Rightarrow> splitter_config \<Rightarrow> ('d, 'r) indexing_components \<Rightarrow> string list
     \<Rightarrow> error + 'r list" where
  "embedded_chunks cc sc comps sources =
     (case converter comps sources of
        Inl e \<Rightarrow> Inl e
      | Inr converted \<Rightarrow>
          (case cleaner comps cc converted of
             Inl e \<Rightarrow> Inl e
           | Inr cleaned \<Rightarrow>
               (case splitter comps sc cleaned of
                  Inl e \<Rightarrow> Inl e
                | Inr chunks \<Rightarrow> embedder comps chunks)))"

definition indexing_pipeline_run ::
  "cleaner_config \<Rightarrow> splitter_config \<Rightarrow> ('d, 'r) indexing_components \<Rightarrow> store_config
     \<Rightarrow> string list \<Rightarrow> 'r database \<Rightarrow> error option \<times> 'r database" where
  "indexing_pipeline_run cc sc comps store sources db =
     (case embedded_chunks cc sc comps sources of
        Inl e \<Rightarrow> (Some e, db)
      | Inr embedded \<Rightarrow> writer comps store embedded db)"

text \<open>
  \<^verbatim>\<open>index_pdf.py\<close> as a whole: construct the store, then run the pipeline on the one
  file.
\<close>

definition pdf_file_path :: "string list" where
  "pdf_file_path = [''./NIPS-2017-attention-is-all-you-need-Paper.pdf'']"

definition index_pdf_main ::
  "('d, 'r) indexing_components \<Rightarrow> 'r database \<Rightarrow> error option \<times> 'r database" where
  "index_pdf_main comps db =
     indexing_pipeline_run index_pdf_cleaner index_pdf_splitter comps index_pdf_document_store
       pdf_file_path (document_store comps index_pdf_document_store db)"

text \<open>
  \<^verbatim>\<open>app.py\<close>: \<^verbatim>\<open>get_document_store\<close> (lines 32 to 41) constructs the store; lines 99 to
  111 index the upload, saved to a temporary file.
\<close>

definition get_document_store ::
  "('d, 'r) indexing_components \<Rightarrow> 'r database \<Rightarrow> 'r database" where
  "get_document_store comps db = document_store comps app_document_store db"

definition app_start_indexing ::
  "('d, 'r) indexing_components \<Rightarrow> string \<Rightarrow> 'r database \<Rightarrow> error option \<times> 'r database" where
  "app_start_indexing comps tmp_file_path db =
     indexing_pipeline_run app_cleaner app_splitter comps app_document_store
       [tmp_file_path] db"

section \<open>The hybrid pipeline of \<^verbatim>\<open>demo.py\<close>\<close>

text \<open>
  The question goes to the text embedder and to the keyword retriever; the outputs of the
  vector retriever and of the keyword retriever are both connected to the joiner, and the
  joiner's output fills the template. The joiner is the library's \<^verbatim>\<open>DocumentJoiner\<close>,
  built with \<^verbatim>\<open>join_mode="concatenate"\<close> and \<^verbatim>\<open>top_k=5\<close>: the script fixes these two
  settings and nothing else about it (not even the order in which the two lists reach it),
  so it is a parameter that takes the settings and the two lists, like the retrievers and
  the generator. The two branches do not depend on each other; the library runs the
  components that are ready in the order of their names, so the keyword retriever comes
  before the text embedder, which matters only for the error that is raised when both
  branches fail.
\<close>

record joiner_config =
  join_mode :: string
  top_k :: nat

definition document_joiner :: joiner_config where
  "document_joiner = \<lparr>join_mode = ''concatenate'', top_k = 5\<rparr>"

record ('v, 'd) hybrid_services =
  query_embedder :: "string \<Rightarrow> error + 'v"
  embedding_retriever :: "'v \<Rightarrow> error + 'd list"
  bm25_retriever :: "string \<Rightarrow> error + 'd list"
  joiner :: "joiner_config \<Rightarrow> 'd list \<Rightarrow> 'd list \<Rightarrow> error + 'd list"
  document_content :: "'d \<Rightarrow> string"
  generator :: "string \<Rightarrow> error + string list"

text \<open>\<^verbatim>\<open>demo.py\<close>, lines 55 to 64.\<close>

definition demo_template :: template where
  "demo_template = \<lparr>
     before_documents =
       nl @ ''Answer the question based ONLY on the following [Context].''
       @ nl @ ''[Context]:'' @ nl,
     before_content = nl @ ''    '',
     after_content = nl,
     before_question = nl @ nl @ ''Question: '',
     after_question = nl @ ''Answer:'' \<rparr>"

definition demo_pipeline_run ::
  "('v, 'd) hybrid_services \<Rightarrow> string \<Rightarrow> error + string list" where
  "demo_pipeline_run svc question =
     (case bm25_retriever svc question of
        Inl e \<Rightarrow> Inl e
      | Inr keyword_documents \<Rightarrow>
          (case query_embedder svc question of
             Inl e \<Rightarrow> Inl e
           | Inr embedding \<Rightarrow>
               (case embedding_retriever svc embedding of
                  Inl e \<Rightarrow> Inl e
                | Inr vector_documents \<Rightarrow>
                    (case joiner svc document_joiner vector_documents keyword_documents of
                       Inl e \<Rightarrow> Inl e
                     | Inr documents \<Rightarrow>
                         generator svc
                           (render demo_template (map (document_content svc) documents)
                              question)))))"

section \<open>Settings to run the scripts on\<close>

text \<open>
  Two settings of the services: one whose generator answers, one whose generator times
  out.
\<close>

definition answering_services :: "nat rag_services" where
  "answering_services = \<lparr>
     text_embedder = (\<lambda>n text. Inr 0),
     retriever = (\<lambda>n top_k embedding. Inr [''Attention is all you need.'']),
     llm = (\<lambda>n prompt. Inr [''It is about attention.'', ''A second reply.'']) \<rparr>"

definition timeout_services :: "nat rag_services" where
  "timeout_services = \<lparr>
     text_embedder = (\<lambda>n text. Inr 0),
     retriever = (\<lambda>n top_k embedding. Inr [''Attention is all you need.'']),
     llm = (\<lambda>n prompt. Inl (ComponentError ''timed out'')) \<rparr>"

definition earlier_turns :: "message list" where
  "earlier_turns =
     [\<lparr>role = ''user'', content = ''Who wrote it?''\<rparr>,
      \<lparr>role = ''assistant'', content = ''Vaswani et al.''\<rparr>]"

section \<open>Properties of the chat window\<close>

text \<open>
  C8. Whatever one submission of the chat input does, the messages that were in the
  history before it stay as they were, at the front of the list. If the query path fails
  for the question (the embedder, the retriever or the generator raises, or the generator
  returns no reply), the turn ends with that error and the history is the earlier history
  followed by the user's question only: no assistant message is appended. An assistant
  message among the appended ones means that the pipeline returned a reply, and the message
  holds that reply, after the user's question.
\<close>

theorem app_chat_turn_history:
  "app_chat_turn svc n chat_input messages = (outcome, messages') \<Longrightarrow>
     take (length messages) messages' = messages
   \<and> (\<forall>prompt e. chat_input = Some prompt \<and> prompt \<noteq> []
          \<and> first_reply (rag_pipeline_run app_template svc n prompt) = Inl e
        \<longrightarrow> outcome = Some e
          \<and> messages' = messages @ [\<lparr>role = ''user'', content = prompt\<rparr>]
          \<and> (\<forall>m \<in> set (drop (length messages) messages'). role m \<noteq> ''assistant''))
   \<and> (\<forall>m \<in> set (drop (length messages) messages'). role m = ''assistant''
        \<longrightarrow> (\<exists>prompt response. chat_input = Some prompt
              \<and> first_reply (rag_pipeline_run app_template svc n prompt) = Inr response
              \<and> outcome = None
              \<and> messages' = messages @ [\<lparr>role = ''user'', content = prompt\<rparr>, m]
              \<and> content m = response))"
  by (auto simp: app_chat_turn_def Let_def split: option.splits if_splits sum.splits)

theorem app_chat_turn_history_witness:
  "app_chat_turn timeout_services 2 (Some ''What is it about?'') earlier_turns
     = (Some (ComponentError ''timed out''),
        earlier_turns @ [\<lparr>role = ''user'', content = ''What is it about?''\<rparr>])
   \<and> first_reply (rag_pipeline_run app_template timeout_services 2 ''What is it about?'')
       = Inl (ComponentError ''timed out'')
   \<and> take (length earlier_turns)
        (earlier_turns @ [\<lparr>role = ''user'', content = ''What is it about?''\<rparr>])
       = earlier_turns
   \<and> app_chat_turn answering_services 2 (Some ''What is it about?'') earlier_turns
     = (None,
        earlier_turns @ [\<lparr>role = ''user'', content = ''What is it about?''\<rparr>,
                         \<lparr>role = ''assistant'', content = ''It is about attention.''\<rparr>])
   \<and> first_reply (rag_pipeline_run app_template answering_services 2 ''What is it about?'')
       = Inr ''It is about attention.''"
proof -
  have failed:
    "app_chat_turn timeout_services 2 (Some ''What is it about?'') earlier_turns
       = (Some (ComponentError ''timed out''),
          earlier_turns @ [\<lparr>role = ''user'', content = ''What is it about?''\<rparr>])"
    by (simp add: app_chat_turn_def first_reply_def rag_pipeline_run_def timeout_services_def)
  have answered:
    "app_chat_turn answering_services 2 (Some ''What is it about?'') earlier_turns
       = (None,
          earlier_turns @ [\<lparr>role = ''user'', content = ''What is it about?''\<rparr>,
                           \<lparr>role = ''assistant'', content = ''It is about attention.''\<rparr>])"
    by (simp add: app_chat_turn_def first_reply_def rag_pipeline_run_def answering_services_def)
  have fails:
    "first_reply (rag_pipeline_run app_template timeout_services 2 ''What is it about?'')
       = Inl (ComponentError ''timed out'')"
    by (simp add: first_reply_def rag_pipeline_run_def timeout_services_def)
  from app_chat_turn_history [OF failed] fails app_chat_turn_history [OF answered]
  show ?thesis
    using failed answered by simp
qed

section \<open>Properties of the interactive loop\<close>

text \<open>The test of the loop accepts two lines: \<^verbatim>\<open>q\<close> and \<^verbatim>\<open>Q\<close>.\<close>

lemma chr_q_iff: "x = CHR ''q'' \<longleftrightarrow> (of_char x :: nat) = 113"
  using of_char_eq_iff [where ?'a = nat, of x "CHR ''q''"] by simp

lemma chr_Q_iff: "x = CHR ''Q'' \<longleftrightarrow> (of_char x :: nat) = 81"
  using of_char_eq_iff [where ?'a = nat, of x "CHR ''Q''"] by simp

lemma lower_chr_q: "lower_chr c = CHR ''q'' \<longleftrightarrow> c = CHR ''q'' \<or> c = CHR ''Q''"
proof -
  define k where "k = (of_char c :: nat)"
  show ?thesis
  proof (cases "65 \<le> k \<and> k \<le> 90")
    case True
    then have "(of_char (lower_chr c) :: nat) = k + 32"
      by (simp add: lower_chr_def k_def)
    with True show ?thesis
      by (auto simp: chr_q_iff chr_Q_iff k_def)
  next
    case False
    then have "lower_chr c = c"
      by (auto simp add: lower_chr_def k_def)
    with False show ?thesis
      by (auto simp: chr_q_iff chr_Q_iff k_def)
  qed
qed

lemma lower_q: "lower l = ''q'' \<longleftrightarrow> l = ''q'' \<or> l = ''Q''"
  by (cases l) (auto simp: lower_def lower_chr_q)

text \<open>Lines that are answered are passed one by one, and the loop goes on with the rest.\<close>

lemma query_loop_answered:
  "answered svc reply n pre \<Longrightarrow>
   query_loop svc n (pre @ rest) =
     (fst (query_loop svc (n + length pre) rest),
      answered_events reply n pre @ snd (query_loop svc (n + length pre) rest))"
proof (induction pre arbitrary: n)
  case Nil
  then show ?case by simp
next
  case (Cons x xs)
  from Cons.prems obtain others where
    nq: "lower x \<noteq> ''q''" and
    run: "rag_pipeline_run query_pdf_template svc n x = Inr (reply n # others)" and
    rest: "answered svc reply (Suc n) xs"
    by (auto split: sum.splits list.splits)
  from Cons.IH [OF rest] nq run show ?case
    by (simp add: answer_block_def)
qed

lemma query_loop_line:
  "query_loop svc k (l # post) =
     (if lower l = ''q'' then (Finished, [Ask, Read l])
      else
        (case rag_pipeline_run query_pdf_template svc k l of
           Inl e \<Rightarrow> (Uncaught e, [Ask, Read l, Print thinking])
         | Inr [] \<Rightarrow> (Uncaught IndexError, [Ask, Read l, Print thinking, Print rule_line])
         | Inr (r # others) \<Rightarrow>
             (fst (query_loop svc (Suc k) post),
              answer_block l r @ snd (query_loop svc (Suc k) post))))"
  by (simp add: answer_block_def split_beta split: sum.splits list.splits)

lemma exit_code_after_answers:
  assumes a: "answered svc reply n (before_quit ls)"
  shows "exit_code (fst (query_loop svc n ls)) = 0 \<longleftrightarrow> (\<exists>x \<in> set ls. lower x = ''q'')"
proof -
  define rest where "rest = dropWhile (\<lambda>l. lower l \<noteq> ''q'') ls"
  have ls: "before_quit ls @ rest = ls"
    by (simp add: before_quit_def rest_def)
  have "fst (query_loop svc n (before_quit ls @ rest))
          = fst (query_loop svc (n + length (before_quit ls)) rest)"
    by (simp only: query_loop_answered [OF a, of rest] fst_conv)
  then have fst: "fst (query_loop svc n ls) = fst (query_loop svc (n + length (before_quit ls)) rest)"
    by (simp only: ls)
  show ?thesis
  proof (cases rest)
    case Nil
    then have "\<forall>x \<in> set ls. lower x \<noteq> ''q''"
      unfolding rest_def by (simp add: dropWhile_eq_Nil_conv)
    with fst Nil show ?thesis by simp
  next
    case (Cons q post)
    then have "lower q = ''q''"
      unfolding rest_def using hd_dropWhile [of "\<lambda>l. lower l \<noteq> ''q''" ls] by force
    moreover have "q \<in> set ls"
      using Cons set_dropWhileD [of q "\<lambda>l. lower l \<noteq> ''q''" ls] unfolding rest_def by simp
    ultimately show ?thesis using fst Cons by auto
  qed
qed

text \<open>
  C9, as the script has it. The claim as written fails where a pipeline run raises: the
  script catches nothing, so it ends there with exit code 1, prints no answer and never
  reads the quit line that was entered after it.
\<close>

theorem query_loop_quit_after_failure_counterexample:
  "\<not> (exit_code (fst (query_loop timeout_services 0 [''What is it about?'', ''q''])) = 0
        \<longleftrightarrow> (lower ''What is it about?'' = ''q'' \<or> lower ''q'' = ''q''))
   \<and> query_loop timeout_services 0 [''What is it about?'', ''q'']
       = (Uncaught (ComponentError ''timed out''),
          [Ask, Read ''What is it about?'', Print thinking])"
  by (simp add: lower_q rag_pipeline_run_def timeout_services_def)

text \<open>
  C9, amended. Let the lines \<open>pre\<close> be answered: none of them passes the quit test (a
  line passes it when it is \<^verbatim>\<open>q\<close> or \<^verbatim>\<open>Q\<close>, by \<open>lower_q\<close>) and the pipeline run on each
  returns a reply. Then the script reads every one of them in order and, for each, prints
  the first reply between the two rules before it asks for the next line. What comes
  after them decides how the script ends:
  \<^item> at the end of the input, with \<^verbatim>\<open>EOFError\<close>;
  \<^item> at a line that passes the quit test, with exit code 0 and without reading further;
  \<^item> at a line whose pipeline run raises, or returns no reply, with that exception and
    without printing an answer or reading further; if the run returns a reply, the answer
    is printed and the loop goes on with the lines that follow.

  So, when the runs on the lines before the first quit line return replies, the exit code
  is 0 exactly when one of the entered lines passes the quit test.
\<close>

theorem query_loop_answers_until_quit:
  "answered svc reply n pre \<Longrightarrow>
     query_loop svc n pre = (Uncaught EOFError, answered_events reply n pre @ [Ask])
   \<and> (lower l = ''q'' \<longrightarrow>
        query_loop svc n (pre @ l # post)
          = (Finished, answered_events reply n pre @ [Ask, Read l]))
   \<and> (lower l \<noteq> ''q'' \<longrightarrow>
        query_loop svc n (pre @ l # post)
          = (case rag_pipeline_run query_pdf_template svc (n + length pre) l of
               Inl e \<Rightarrow>
                 (Uncaught e, answered_events reply n pre @ [Ask, Read l, Print thinking])
             | Inr [] \<Rightarrow>
                 (Uncaught IndexError,
                  answered_events reply n pre @ [Ask, Read l, Print thinking, Print rule_line])
             | Inr (r # others) \<Rightarrow>
                 (fst (query_loop svc (Suc (n + length pre)) post),
                  answered_events reply n pre @ answer_block l r
                    @ snd (query_loop svc (Suc (n + length pre)) post))))
   \<and> (pre = before_quit ls \<longrightarrow>
        (exit_code (fst (query_loop svc n ls)) = 0 \<longleftrightarrow> (\<exists>x \<in> set ls. lower x = ''q'')))"
proof -
  assume a: "answered svc reply n pre"
  note whole = query_loop_answered [OF a, of "[]"]
  note split = query_loop_answered [OF a, of "l # post"]
  note line = query_loop_line [of svc "n + length pre" l post]
  have 1: "query_loop svc n pre = (Uncaught EOFError, answered_events reply n pre @ [Ask])"
    using whole by simp
  have 2: "lower l = ''q'' \<longrightarrow>
        query_loop svc n (pre @ l # post)
          = (Finished, answered_events reply n pre @ [Ask, Read l])"
    by (simp only: split line) simp
  have 3: "lower l \<noteq> ''q'' \<longrightarrow>
        query_loop svc n (pre @ l # post)
          = (case rag_pipeline_run query_pdf_template svc (n + length pre) l of
               Inl e \<Rightarrow>
                 (Uncaught e, answered_events reply n pre @ [Ask, Read l, Print thinking])
             | Inr [] \<Rightarrow>
                 (Uncaught IndexError,
                  answered_events reply n pre @ [Ask, Read l, Print thinking, Print rule_line])
             | Inr (r # others) \<Rightarrow>
                 (fst (query_loop svc (Suc (n + length pre)) post),
                  answered_events reply n pre @ answer_block l r
                    @ snd (query_loop svc (Suc (n + length pre)) post)))"
    by (simp only: split line) (simp split: sum.splits list.splits)
  have 4: "pre = before_quit ls \<longrightarrow>
        (exit_code (fst (query_loop svc n ls)) = 0 \<longleftrightarrow> (\<exists>x \<in> set ls. lower x = ''q''))"
    using a exit_code_after_answers [of svc reply n ls] by blast
  from 1 2 3 4 show ?thesis by blast
qed

theorem query_loop_answers_until_quit_witness:
  "answered answering_services (\<lambda>k. ''It is about attention.'') 0 [''What is attention?'']
   \<and> lower ''Q'' = ''q''
   \<and> before_quit [''What is attention?'', ''Q'', ''never read''] = [''What is attention?'']
   \<and> query_loop answering_services 0 [''What is attention?'', ''Q'', ''never read'']
       = (Finished,
          [Ask, Read ''What is attention?'', Print thinking, Print rule_line,
           Print ''It is about attention.'', Print rule_line, Ask, Read ''Q''])
   \<and> exit_code (fst (query_loop answering_services 0
         [''What is attention?'', ''Q'', ''never read''])) = 0
   \<and> (\<exists>x \<in> set [''What is attention?'', ''Q'', ''never read'']. lower x = ''q'')
   \<and> lower ''again'' \<noteq> ''q''
   \<and> query_loop answering_services 0 [''What is attention?'', ''again'']
       = (Uncaught EOFError,
          [Ask, Read ''What is attention?'', Print thinking, Print rule_line,
           Print ''It is about attention.'', Print rule_line,
           Ask, Read ''again'', Print thinking, Print rule_line,
           Print ''It is about attention.'', Print rule_line, Ask])"
proof -
  have run: "\<And>k q. rag_pipeline_run query_pdf_template answering_services k q
      = Inr [''It is about attention.'', ''A second reply.'']"
    by (simp add: rag_pipeline_run_def answering_services_def)
  have pre: "answered answering_services (\<lambda>k. ''It is about attention.'') 0
      [''What is attention?'']"
    by (simp add: run lower_q)
  have bq: "before_quit [''What is attention?'', ''Q'', ''never read''] = [''What is attention?'']"
    by (simp add: before_quit_def lower_q)
  have Q: "lower ''Q'' = ''q''" and again: "lower ''again'' \<noteq> ''q''"
    by (simp_all add: lower_q)
  have tail: "query_loop answering_services 1 [] = (Uncaught EOFError, [Ask])"
    by simp
  note quit = query_loop_answers_until_quit
      [OF pre, of "''Q''" "[''never read'']" "[''What is attention?'', ''Q'', ''never read'']"]
  note more = query_loop_answers_until_quit [OF pre, of "''again''" "[]"]
  from quit Q bq have
    "query_loop answering_services 0 [''What is attention?'', ''Q'', ''never read'']
       = (Finished,
          [Ask, Read ''What is attention?'', Print thinking, Print rule_line,
           Print ''It is about attention.'', Print rule_line, Ask, Read ''Q''])"
    "exit_code (fst (query_loop answering_services 0
         [''What is attention?'', ''Q'', ''never read''])) = 0
     \<longleftrightarrow> (\<exists>x \<in> set [''What is attention?'', ''Q'', ''never read'']. lower x = ''q'')"
    by (simp_all add: answer_block_def)
  moreover from more again run tail have
    "query_loop answering_services 0 [''What is attention?'', ''again'']
       = (Uncaught EOFError,
          [Ask, Read ''What is attention?'', Print thinking, Print rule_line,
           Print ''It is about attention.'', Print rule_line,
           Ask, Read ''again'', Print thinking, Print rule_line,
           Print ''It is about attention.'', Print rule_line, Ask])"
    by (simp add: answer_block_def)
  ultimately show ?thesis
    using pre Q bq again by simp
qed

section \<open>The prompt of the hybrid pipeline\<close>

text \<open>
  The template of \<^verbatim>\<open>demo.py\<close> has no branch for an empty list of documents: the prompt is
  then the fixed text around an empty context section, with the question.
\<close>

lemma demo_prompt_without_documents:
  "render demo_template [] question =
     nl @ ''Answer the question based ONLY on the following [Context].''
     @ nl @ ''[Context]:'' @ nl @ nl @ nl @ ''Question: '' @ question @ nl @ ''Answer:''"
  by (simp add: render_def demo_template_def)

end
